theory Spec2Isabelle
  imports Complex_Main "HOL-Library.Word"
begin

section \<open>Python strings: the two built-ins the key store uses\<close>

text \<open>
  A Python \<open>str\<close> is modelled as a \<open>string\<close>, each \<open>char\<close> being one code point
  below 256. That is the range an HTTP header value has once the framework has decoded it
  (Latin-1), so every candidate key a request can carry is a \<open>string\<close>.

  \<open>isspace\<close> lists the code points below 256 that \<open>str.strip()\<close> removes: TAB, LF, VT,
  FF, CR, the separators 0x1C..0x1F, SPACE, NEL (0x85) and NBSP (0xA0).
\<close>

definition isspace :: "char \<Rightarrow> bool" where
  "isspace c = (c \<in> set [CHR 0x09, CHR 0x0A, CHR 0x0B, CHR 0x0C, CHR 0x0D,
                          CHR 0x1C, CHR 0x1D, CHR 0x1E, CHR 0x1F, CHR 0x20,
                          CHR 0x85, CHR 0xA0])"

text \<open>\<open>s.strip()\<close>: leading and trailing whitespace removed.\<close>

definition py_strip :: "string \<Rightarrow> string" where
  "py_strip s = rev (dropWhile isspace (rev (dropWhile isspace s)))"

text \<open>
  \<open>s.split(sep)\<close> for a one-character separator. \<open>split_aux\<close> returns the segment
  before the first separator and the list of the segments after it, so the result is
  never empty: \<open>"".split(",") == [""]\<close>.
\<close>

fun split_aux :: "char \<Rightarrow> string \<Rightarrow> string \<times> string list" where
  "split_aux sep [] = ([], [])"
| "split_aux sep (c # cs) =
     (case split_aux sep cs of
        (seg, segs) \<Rightarrow> if c = sep then ([], seg # segs) else (c # seg, segs))"

definition py_split :: "char \<Rightarrow> string \<Rightarrow> string list" where
  "py_split sep s = (case split_aux sep s of (seg, segs) \<Rightarrow> seg # segs)"

section \<open>api_keys.py: ProductionAPIKeyManager\<close>

record key_manager =
  primary_key :: "string option"
  fallback_keys :: "string list"
  valid_keys :: "string list"

text \<open>
  \<open>__init__\<close>. The two arguments are \<open>os.environ.get("VIDEO_ANALYZER_API_KEY")\<close> and
  \<open>os.environ.get("FALLBACK_API_KEYS")\<close>, \<open>None\<close> when the variable is not set; the
  second one defaults to the empty string.
\<close>

definition key_manager_init :: "string option \<Rightarrow> string option \<Rightarrow> key_manager" where
  "key_manager_init env_primary env_fallback =
     (let fallback_str = (case env_fallback of None \<Rightarrow> [] | Some s \<Rightarrow> s);
          fallbacks = map py_strip
                        (filter (\<lambda>key. py_strip key \<noteq> []) (py_split CHR '','' fallback_str));
          valid = (case env_primary of
                     None \<Rightarrow> []
                   | Some p \<Rightarrow> if p \<noteq> [] then [p] else [])
      in \<lparr>primary_key = env_primary, fallback_keys = fallbacks,
          valid_keys = valid @ fallbacks\<rparr>)"

text \<open>
  \<open>validate_key\<close>. The candidate is optional: \<open>not api_key\<close> holds for \<open>None\<close> and for
  the empty string. The debug prints are left out.
\<close>

definition validate_key :: "key_manager \<Rightarrow> string option \<Rightarrow> bool" where
  "validate_key m api_key =
     (case api_key of
        None \<Rightarrow> False
      | Some k \<Rightarrow> if k = [] then False else k \<in> set (valid_keys m))"

definition get_primary_key :: "key_manager \<Rightarrow> string option" where
  "get_primary_key m = primary_key m"

definition has_valid_keys :: "key_manager \<Rightarrow> bool" where
  "has_valid_keys m = (length (valid_keys m) > 0)"

definition get_key_count :: "key_manager \<Rightarrow> nat" where
  "get_key_count m = length (valid_keys m)"

section \<open>main.py: data\<close>

text \<open>
  A Python \<open>float\<close> is modelled by the rational number it denotes (every finite double
  is one); an \<open>int\<close> where a float is expected is the same rational. The literal \<open>0.3\<close>
  of the source denotes the double nearest to three tenths, which lies just below it.
\<close>

definition float_0_3 :: rat where
  "float_0_3 = 5404319552844595 / 2 ^ 54"

text \<open>
  \<open>round(x, ndigits)\<close> on a float rounds the exact value to \<open>ndigits\<close> decimals, ties to
  the even digit. The result here is that decimal; Python stores the double nearest to it.
\<close>

definition round_half_even :: "rat \<Rightarrow> int" where
  "round_half_even x =
     (let f = \<lfloor>x\<rfloor>; d = x - of_int f
      in if d < 1 / 2 then f
         else if 1 / 2 < d then f + 1
         else if even f then f else f + 1)"

definition py_round :: "rat \<Rightarrow> nat \<Rightarrow> rat" where
  "py_round x ndigits = of_int (round_half_even (x * 10 ^ ndigits)) / 10 ^ ndigits"

text \<open>\<open>bytes\<close>, and the decoded frame: rows of pixels, three 8-bit channels each.\<close>

type_synonym bytes = "8 word list"
type_synonym pixel = "8 word \<times> 8 word \<times> 8 word"
type_synonym ndarray = "pixel list list"

datatype http_exception = HTTPException (status_code: nat) (detail: string)

text \<open>The body of the base64 request is a JSON object; its values are any JSON.\<close>

datatype json =
    JNull
  | JBool bool
  | JNum rat
  | JStr string
  | JArr "json list"
  | JObj "(string \<times> json) list"

text \<open>Python's truth value of a parsed JSON value (\<open>not v\<close> is its negation).\<close>

fun truthy :: "json \<Rightarrow> bool" where
  "truthy JNull = False"
| "truthy (JBool b) = b"
| "truthy (JNum n) = (n \<noteq> 0)"
| "truthy (JStr s) = (s \<noteq> [])"
| "truthy (JArr xs) = (xs \<noteq> [])"
| "truthy (JObj kvs) = (kvs \<noteq> [])"

text \<open>
  Modelled from the spec: the result dictionary of \<open>analyzer.process_frame\<close>, whose module
  (\<open>production_ready_analyzer\<close>) is not among the sources. The spec's Analysis Result lists
  the keys and their types and says that any of them may be absent: \<open>None\<close> is an absent
  key. A metric that is present may hold Python's \<open>None\<close> (the handlers test for it), so a
  metric is looked up to \<open>Some None\<close> then.
\<close>

record analysis_result =
  res_frame_count :: "int option"
  res_frame_confidence :: "rat option"
  res_metrics :: "(string \<rightharpoonup> rat option) option"
  res_detection_results :: "(string \<rightharpoonup> int) option"
  res_timestamp :: "rat option"
  res_warnings :: "string list option"

text \<open>\<open>FrameAnalysisResponse\<close>.\<close>

record frame_analysis_response =
  frame :: int
  frame_confidence :: rat
  confidence_status :: string
  attention :: "rat option"
  head_movement :: "rat option"
  shoulder_tilt :: "rat option"
  hand_activity :: "rat option"
  hands_detected :: int
  timestamp :: rat
  success :: bool
  warnings :: "string list"

subsection \<open>The collaborators and the world a request runs in\<close>

text \<open>
  What a request can observe of its run: the analyzer's own state, and the calls made so
  far to the two decoding functions and to \<open>process_frame\<close>, oldest first.
\<close>

datatype event =
    Enter_decode_image bytes
  | Enter_decode_base64_image json
  | Call_process_frame ndarray

record 'a world =
  analyzer :: 'a
  trace :: "event list"

definition log_event :: "event \<Rightarrow> 'a world \<Rightarrow> 'a world" where
  "log_event ev w = w\<lparr>trace := trace w @ [ev]\<rparr>"

text \<open>
  The libraries the handlers call, as parameters. A call that raises returns \<open>Inl\<close> of the
  exception's \<open>str\<close>.
  \<^item> \<open>pil_open_rgb\<close>: \<open>Image.open\<close>, \<open>convert('RGB')\<close> when the mode differs, \<open>np.array\<close>;
  \<^item> \<open>b64decode\<close>: \<open>base64.b64decode\<close> on a \<open>str\<close>;
  \<^item> \<open>process_frame\<close>: the analyzer, which may change its own state;
  \<^item> \<open>str_http\<close>: \<open>str(e)\<close> of an \<open>HTTPException\<close>;
  \<^item> \<open>str_py_error\<close>: \<open>str(e)\<close> of the \<open>TypeError\<close> or \<open>AttributeError\<close> that
    \<open>decode_base64_image\<close> runs into on a value that is not a \<open>str\<close>;
  \<^item> \<open>time_now\<close>: \<open>time.time()\<close>.
\<close>

record 'a externals =
  pil_open_rgb :: "bytes \<Rightarrow> string + ndarray"
  b64decode :: "string \<Rightarrow> string + bytes"
  process_frame :: "'a \<Rightarrow> ndarray \<Rightarrow> (string + analysis_result) \<times> 'a"
  str_http :: "http_exception \<Rightarrow> string"
  str_py_error :: "json \<Rightarrow> string"
  time_now :: rat

text \<open>\<open>cv2.cvtColor(frame, cv2.COLOR_RGB2BGR)\<close>: the first and third channel swapped.\<close>

definition cvtColor_RGB2BGR :: "ndarray \<Rightarrow> ndarray" where
  "cvtColor_RGB2BGR img = map (map (\<lambda>(r, g, b). (b, g, r))) img"

section \<open>main.py: the image decoder\<close>

text \<open>
  \<open>decode_image\<close>. Whatever the three library calls raise is caught and raised again as
  status 400.
\<close>

definition decode_image ::
  "'a externals \<Rightarrow> bytes \<Rightarrow> 'a world \<Rightarrow> (http_exception + ndarray) \<times> 'a world" where
  "decode_image ext image_data w =
     (let w1 = log_event (Enter_decode_image image_data) w
      in case pil_open_rgb ext image_data of
           Inl msg \<Rightarrow> (Inl (HTTPException 400 (''Invalid image format: '' @ msg)), w1)
         | Inr rgb \<Rightarrow> (Inr (cvtColor_RGB2BGR rgb), w1))"

text \<open>
  Lines 115 and 116 of \<open>decode_base64_image\<close>, under the comment "Remove data URL prefix
  if present": \<open>base64_string.split(',')[1]\<close> when the string has a comma. \<open>Inl\<close> is the
  \<open>IndexError\<close> of an index out of range.
\<close>

definition remove_data_url_prefix :: "string \<Rightarrow> string + string" where
  "remove_data_url_prefix base64_string =
     (if CHR '','' \<in> set base64_string
      then (case py_split CHR '','' base64_string of
              _ # seg # _ \<Rightarrow> Inr seg
            | _ \<Rightarrow> Inl ''list index out of range'')
      else Inr base64_string)"

text \<open>
  \<open>decode_base64_image\<close>. Its \<open>except Exception\<close> also catches the \<open>HTTPException\<close> of
  \<open>decode_image\<close>, and the error of a value that is not a \<open>str\<close>.
\<close>

definition decode_base64_image ::
  "'a externals \<Rightarrow> json \<Rightarrow> 'a world \<Rightarrow> (http_exception + ndarray) \<times> 'a world" where
  "decode_base64_image ext base64_string w =
     (let w1 = log_event (Enter_decode_base64_image base64_string) w
      in case base64_string of
           JStr s \<Rightarrow>
             (case remove_data_url_prefix s of
                Inl msg \<Rightarrow> (Inl (HTTPException 400 (''Invalid base64 image: '' @ msg)), w1)
              | Inr s' \<Rightarrow>
                  (case b64decode ext s' of
                     Inl msg \<Rightarrow>
                       (Inl (HTTPException 400 (''Invalid base64 image: '' @ msg)), w1)
                   | Inr image_data \<Rightarrow>
                       (case decode_image ext image_data w1 of
                          (Inl e, w2) \<Rightarrow>
                            (Inl (HTTPException 400
                                    (''Invalid base64 image: '' @ str_http ext e)), w2)
                        | (Inr frm, w2) \<Rightarrow> (Inr frm, w2))))
         | _ \<Rightarrow>
             (Inl (HTTPException 400
                     (''Invalid base64 image: '' @ str_py_error ext base64_string)), w1))"

section \<open>main.py: the response and the two handlers\<close>

text \<open>\<open>metrics.get(name)\<close>: \<open>None\<close> for an absent key and for a key that holds \<open>None\<close>.\<close>

definition metrics_get :: "(string \<rightharpoonup> rat option) \<Rightarrow> string \<Rightarrow> rat option" where
  "metrics_get metrics name = (case metrics name of None \<Rightarrow> None | Some v \<Rightarrow> v)"

text \<open>
  Lines 180 to 203 of \<open>analyze_frame\<close>, which are lines 234 to 257 of
  \<open>analyze_base64_frame\<close> word for word: the response built from the analyzer's result.
  \<open>now\<close> is \<open>time.time()\<close>, the default of the timestamp.
\<close>

definition build_response :: "rat \<Rightarrow> analysis_result \<Rightarrow> frame_analysis_response" where
  "build_response now result =
     (let metrics = (case res_metrics result of None \<Rightarrow> Map.empty | Some m \<Rightarrow> m);
          conf = (case res_frame_confidence result of None \<Rightarrow> 0 | Some c \<Rightarrow> c);
          status = (if float_0_3 \<le> conf then ''PASS'' else ''FAIL'');
          detection = (case res_detection_results result of
                         None \<Rightarrow> Map.empty | Some d \<Rightarrow> d);
          hands = (case detection ''hands_detected_count'' of None \<Rightarrow> 0 | Some n \<Rightarrow> n)
      in \<lparr>frame = (case res_frame_count result of None \<Rightarrow> 0 | Some n \<Rightarrow> n),
          frame_confidence = py_round conf 3,
          confidence_status = status,
          attention =
            (case metrics_get metrics ''attention_percent'' of
               None \<Rightarrow> None | Some v \<Rightarrow> Some (py_round v 1)),
          head_movement =
            (case metrics_get metrics ''head_movement_normalized'' of
               None \<Rightarrow> None | Some v \<Rightarrow> Some (py_round v 4)),
          shoulder_tilt =
            (case metrics_get metrics ''shoulder_tilt_deg'' of
               None \<Rightarrow> None | Some v \<Rightarrow> Some (py_round v 1)),
          hand_activity =
            (case metrics_get metrics ''hand_activity_normalized'' of
               None \<Rightarrow> None | Some v \<Rightarrow> Some (py_round v 4)),
          hands_detected = hands,
          timestamp = (case res_timestamp result of None \<Rightarrow> now | Some t \<Rightarrow> t),
          success = True,
          warnings = (case res_warnings result of None \<Rightarrow> [] | Some ws \<Rightarrow> ws)\<rparr>)"

text \<open>
  Lines 177 to 205 (231 to 259): the analyzer is called on the frame and the response is
  built. \<open>Inl\<close> is the \<open>str\<close> of an exception the analyzer raised.
\<close>

definition process_and_respond ::
  "'a externals \<Rightarrow> ndarray \<Rightarrow> 'a world \<Rightarrow> (string + frame_analysis_response) \<times> 'a world" where
  "process_and_respond ext frm w =
     (let w1 = log_event (Call_process_frame frm) w
      in case process_frame ext (analyzer w1) frm of
           (Inl msg, a) \<Rightarrow> (Inl msg, w1\<lparr>analyzer := a\<rparr>)
         | (Inr result, a) \<Rightarrow>
             (Inr (build_response (time_now ext) result), w1\<lparr>analyzer := a\<rparr>))"

text \<open>
  \<open>analyze_frame\<close>, on the bytes read from the uploaded file. Its only handler is
  \<open>except Exception\<close>, which an \<open>HTTPException\<close> is an instance of.
\<close>

definition analyze_frame ::
  "'a externals \<Rightarrow> bytes \<Rightarrow> 'a world
     \<Rightarrow> (http_exception + frame_analysis_response) \<times> 'a world" where
  "analyze_frame ext image_data w =
     (case decode_image ext image_data w of
        (Inl e, w1) \<Rightarrow>
          (Inl (HTTPException 500 (''Error processing frame: '' @ str_http ext e)), w1)
      | (Inr frm, w1) \<Rightarrow>
          (case process_and_respond ext frm w1 of
             (Inl msg, w2) \<Rightarrow>
               (Inl (HTTPException 500 (''Error processing frame: '' @ msg)), w2)
           | (Inr response, w2) \<Rightarrow> (Inr response, w2)))"

text \<open>
  \<open>analyze_base64_frame\<close>, on the parsed JSON object. \<open>except HTTPException: raise\<close> comes
  first here, so the 400s pass through unchanged.
\<close>

definition analyze_base64_frame ::
  "'a externals \<Rightarrow> (string \<rightharpoonup> json) \<Rightarrow> 'a world
     \<Rightarrow> (http_exception + frame_analysis_response) \<times> 'a world" where
  "analyze_base64_frame ext request w =
     (let base64_string = (case request ''image'' of None \<Rightarrow> JNull | Some v \<Rightarrow> v)
      in if \<not> truthy base64_string
         then (Inl (HTTPException 400 ''Missing 'image' field in request''), w)
         else
           (case decode_base64_image ext base64_string w of
              (Inl e, w1) \<Rightarrow> (Inl e, w1)
            | (Inr frm, w1) \<Rightarrow>
                (case process_and_respond ext frm w1 of
                   (Inl msg, w2) \<Rightarrow>
                     (Inl (HTTPException 500 (''Error processing frame: '' @ msg)), w2)
                 | (Inr response, w2) \<Rightarrow> (Inr response, w2))))"

section \<open>main.py: authentication\<close>

text \<open>\<open>verify_api_key\<close>, on the value of the \<open>X-API-Key\<close> header (\<open>None\<close> when absent).\<close>

definition verify_api_key :: "key_manager \<Rightarrow> string option \<Rightarrow> http_exception + string" where
  "verify_api_key km api_key =
     (case api_key of
        None \<Rightarrow>
          Inl (HTTPException 401 ''API key required. Please provide X-API-Key header.'')
      | Some k \<Rightarrow>
          if k = []
          then Inl (HTTPException 401 ''API key required. Please provide X-API-Key header.'')
          else if \<not> validate_key km (Some k)
          then Inl (HTTPException 401 ''Invalid or expired API key.'')
          else Inr k)"

text \<open>
  The two routes. \<open>api_key: str = Depends(verify_api_key)\<close>: the framework runs the
  dependency first and calls the handler only when it returned; an exception of the
  dependency is the reply.
\<close>

definition post_analyze_frame ::
  "key_manager \<Rightarrow> 'a externals \<Rightarrow> string option \<Rightarrow> bytes \<Rightarrow> 'a world
     \<Rightarrow> (http_exception + frame_analysis_response) \<times> 'a world" where
  "post_analyze_frame km ext x_api_key image_data w =
     (case verify_api_key km x_api_key of
        Inl e \<Rightarrow> (Inl e, w)
      | Inr api_key \<Rightarrow> analyze_frame ext image_data w)"

definition post_analyze_base64 ::
  "key_manager \<Rightarrow> 'a externals \<Rightarrow> string option \<Rightarrow> (string \<rightharpoonup> json) \<Rightarrow> 'a world
     \<Rightarrow> (http_exception + frame_analysis_response) \<times> 'a world" where
  "post_analyze_base64 km ext x_api_key request w =
     (case verify_api_key km x_api_key of
        Inl e \<Rightarrow> (Inl e, w)
      | Inr api_key \<Rightarrow> analyze_base64_frame ext request w)"

section \<open>A stand-in for the collaborators\<close>

text \<open>
  Concrete collaborators to run the handlers on: the only image is the two bytes
  \<open>89 50\<close> (base64 \<open>iVA=\<close>), one red pixel; the analyzer counts its calls in its state
  and returns the result it is given; \<open>str\<close> of an \<open>HTTPException\<close> is its status and
  its detail.
\<close>

definition stub_externals :: "analysis_result \<Rightarrow> nat externals" where
  "stub_externals result =
     \<lparr>pil_open_rgb = (\<lambda>image_data.
        if image_data = [0x89, 0x50] then Inr [[(255, 0, 0)]]
        else Inl ''cannot identify image file''),
      b64decode = (\<lambda>s. if s = ''iVA='' then Inr [0x89, 0x50] else Inl ''Incorrect padding''),
      process_frame = (\<lambda>calls frm. (Inr result, Suc calls)),
      str_http = (\<lambda>e. (if status_code e = 400 then ''400: '' else ''500: '') @ detail e),
      str_py_error = (\<lambda>v. ''argument should be a bytes-like object or ASCII string''),
      time_now = 1000\<rparr>"

definition scenario_result :: analysis_result where
  "scenario_result =
     \<lparr>res_frame_count = None, res_frame_confidence = Some (1 / 4),
      res_metrics = Some Map.empty, res_detection_results = None,
      res_timestamp = Some 1000, res_warnings = None\<rparr>"

definition metrics_result :: analysis_result where
  "metrics_result =
     scenario_result\<lparr>res_metrics :=
       Some [''attention_percent'' \<mapsto> Some (4373 / 50), ''shoulder_tilt_deg'' \<mapsto> None,
             ''hand_activity_normalized'' \<mapsto> Some 0]\<rparr>"

section \<open>Properties of the key store\<close>

subsection \<open>Splitting and stripping\<close>

lemma split_aux_fst: "fst (split_aux sep s) = takeWhile (\<lambda>c. c \<noteq> sep) s"
  by (induction s) (auto split: prod.splits)

lemma split_aux_snd:
  "snd (split_aux sep s) =
     (if sep \<in> set s then py_split sep (tl (dropWhile (\<lambda>c. c \<noteq> sep) s)) else [])"
  by (induction s) (auto simp: py_split_def split: prod.splits)

lemma py_split_eq:
  "py_split sep s =
     takeWhile (\<lambda>c. c \<noteq> sep) s #
     (if sep \<in> set s then py_split sep (tl (dropWhile (\<lambda>c. c \<noteq> sep) s)) else [])"
proof -
  have "split_aux sep s = (fst (split_aux sep s), snd (split_aux sep s))" by simp
  then have "py_split sep s = fst (split_aux sep s) # snd (split_aux sep s)"
    unfolding py_split_def by (metis case_prod_conv)
  then show ?thesis by (simp only: split_aux_fst split_aux_snd)
qed

lemma py_split_no_sep: "sep \<notin> set s \<Longrightarrow> py_split sep s = [s]"
  by (subst py_split_eq) (auto simp: takeWhile_eq_all_conv)

lemma py_split_hd: "hd (py_split sep s) = takeWhile (\<lambda>c. c \<noteq> sep) s"
  by (subst py_split_eq) simp

lemma py_strip_decomp:
  "\<exists>pre suf. s = pre @ py_strip s @ suf \<and> (\<forall>c \<in> set pre. isspace c) \<and> (\<forall>c \<in> set suf. isspace c)"
proof -
  let ?l = "dropWhile isspace s"
  have 1: "s = takeWhile isspace s @ ?l" by simp
  have "rev (takeWhile isspace (rev ?l) @ dropWhile isspace (rev ?l)) = ?l"
    by (simp only: takeWhile_dropWhile_id rev_rev_ident)
  then have "?l = rev (dropWhile isspace (rev ?l)) @ rev (takeWhile isspace (rev ?l))"
    by (simp only: rev_append)
  then have "s = takeWhile isspace s @ py_strip s @ rev (takeWhile isspace (rev ?l))"
    using 1 by (simp add: py_strip_def)
  moreover have "\<forall>c \<in> set (takeWhile isspace s). isspace c"
    by (auto dest: set_takeWhileD)
  moreover have "\<forall>c \<in> set (rev (takeWhile isspace (rev ?l))). isspace c"
    by (auto dest: set_takeWhileD)
  ultimately show ?thesis by blast
qed

lemma py_strip_ends:
  "py_strip s \<noteq> [] \<Longrightarrow> \<not> isspace (hd (py_strip s)) \<and> \<not> isspace (last (py_strip s))"
proof -
  assume ne: "py_strip s \<noteq> []"
  let ?l = "dropWhile isspace s"
  let ?r = "dropWhile isspace (rev ?l)"
  have r: "?r \<noteq> []" using ne by (simp add: py_strip_def)
  then have "\<not> isspace (hd ?r)" by (rule hd_dropWhile)
  then have last: "\<not> isspace (last (py_strip s))"
    using r by (simp add: py_strip_def last_rev)
  have l: "?l \<noteq> []"
  proof
    assume a: "?l = []"
    have "?r = []" unfolding a by simp
    with r show False ..
  qed
  then have hl: "\<not> isspace (hd ?l)" by (rule hd_dropWhile)
  have "rev (takeWhile isspace (rev ?l) @ ?r) = ?l"
    by (simp only: takeWhile_dropWhile_id rev_rev_ident)
  then have "?l = rev ?r @ rev (takeWhile isspace (rev ?l))"
    by (simp only: rev_append)
  then have "hd ?l = hd (rev ?r @ rev (takeWhile isspace (rev ?l)))" by simp
  also have "\<dots> = hd (rev ?r)" using r by simp
  finally have "\<not> isspace (hd (py_strip s))" using hl by (simp add: py_strip_def)
  with last show ?thesis by simp
qed

subsection \<open>The manager after \<open>__init__\<close>\<close>

lemma fallback_keys_init:
  "fallback_keys (key_manager_init p f) =
     map py_strip (filter (\<lambda>key. py_strip key \<noteq> [])
       (py_split CHR '','' (case f of None \<Rightarrow> [] | Some s \<Rightarrow> s)))"
  by (simp add: key_manager_init_def Let_def)

lemma valid_keys_init:
  "valid_keys (key_manager_init p f) =
     (case p of None \<Rightarrow> [] | Some k \<Rightarrow> if k \<noteq> [] then [k] else []) @
     fallback_keys (key_manager_init p f)"
  by (simp add: key_manager_init_def Let_def)

lemma primary_key_init: "primary_key (key_manager_init p f) = p"
  by (simp add: key_manager_init_def Let_def)

lemma fallback_keys_nonempty: "[] \<notin> set (fallback_keys (key_manager_init p f))"
  by (auto simp: fallback_keys_init)

text \<open>
  Claim C4. \<open>validate_key\<close> is false for an absent and for an empty candidate whatever the
  manager holds; a non-empty candidate is valid exactly when it is the primary key or one
  of the fallback keys of the manager, the empty string excluded.
\<close>

theorem validate_key_membership:
  "validate_key m None = False \<and> validate_key m (Some []) = False \<and>
   (c \<noteq> [] \<longrightarrow>
      validate_key (key_manager_init p f) (Some c) =
        (c \<in> (set_option (primary_key (key_manager_init p f)) \<union>
               set (fallback_keys (key_manager_init p f))) - {[]}))"
  using fallback_keys_nonempty [of p f]
  by (auto simp: validate_key_def valid_keys_init primary_key_init split: option.splits)

theorem validate_key_membership_witness:
  "validate_key (key_manager_init (Some ''abc123'') (Some ''def456,,ghi789'')) (Some ''ghi789'') \<and>
   \<not> validate_key (key_manager_init (Some ''abc123'') (Some ''def456,,ghi789'')) (Some ''xyz'') \<and>
   \<not> validate_key (key_manager_init (Some ''abc123'') (Some ''def456,,ghi789'')) (Some [])"
proof -
  let ?km = "key_manager_init (Some ''abc123'') (Some ''def456,,ghi789'')"
  have p: "primary_key ?km = Some ''abc123''" by (simp add: primary_key_init)
  have f: "fallback_keys ?km = [''def456'', ''ghi789'']" by code_simp
  show ?thesis
    using validate_key_membership [of ?km "''ghi789''" "Some ''abc123''" "Some ''def456,,ghi789''"]
      validate_key_membership [of ?km "''xyz''" "Some ''abc123''" "Some ''def456,,ghi789''"]
    by (simp add: p f)
qed

text \<open>
  Claim C10. A fallback key enters the valid set stripped of its surrounding whitespace and
  the primary key enters it as it is: with the single fallback \<open>seg\<close> configured, the valid
  candidate is \<open>py_strip seg\<close> and no other; with the primary key \<open>p\<close> alone, it is \<open>p\<close>
  and no other. The fallback keys are the stripped segments of the configuration string,
  the empty ones dropped, and a stripped key neither starts nor ends with whitespace.
\<close>

theorem fallback_keys_stripped_primary_verbatim:
  "(CHR '','' \<notin> set seg \<and> py_strip seg \<noteq> [] \<longrightarrow>
      validate_key (key_manager_init None (Some seg)) (Some c) = (c = py_strip seg)) \<and>
   validate_key (key_manager_init (Some p) None) (Some c) = (c \<noteq> [] \<and> c = p) \<and>
   set (fallback_keys (key_manager_init q (Some f))) =
     py_strip ` set (py_split CHR '','' f) - {[]} \<and>
   (py_strip s \<noteq> [] \<longrightarrow> \<not> isspace (hd (py_strip s)) \<and> \<not> isspace (last (py_strip s)))"
proof -
  have 1: "validate_key (key_manager_init None (Some seg)) (Some c) = (c = py_strip seg)"
    if "CHR '','' \<notin> set seg" "py_strip seg \<noteq> []"
    using that
    by (auto simp: validate_key_def valid_keys_init fallback_keys_init py_split_no_sep)
  have e: "py_split CHR '','' [] = [[]]" by (simp add: py_split_def)
  have s: "py_strip [] = []" by (simp add: py_strip_def)
  have 2: "validate_key (key_manager_init (Some p) None) (Some c) = (c \<noteq> [] \<and> c = p)"
    by (auto simp: validate_key_def valid_keys_init fallback_keys_init e s)
  have 3: "set (fallback_keys (key_manager_init q (Some f))) =
     py_strip ` set (py_split CHR '','' f) - {[]}"
    by (auto simp: fallback_keys_init)
  show ?thesis
    using 1 2 3 py_strip_ends [of s] by blast
qed

theorem fallback_keys_stripped_primary_verbatim_witness:
  "validate_key (key_manager_init None (Some '' k '')) (Some ''k'') \<and>
   \<not> validate_key (key_manager_init None (Some '' k '')) (Some '' k '') \<and>
   validate_key (key_manager_init (Some '' k '') None) (Some '' k '') \<and>
   \<not> validate_key (key_manager_init (Some '' k '') None) (Some ''k'')"
proof -
  have s: "py_strip '' k '' = ''k''" by (simp add: py_strip_def isspace_def)
  from fallback_keys_stripped_primary_verbatim [where seg = "'' k ''" and c = "''k''"
      and p = "'' k ''"]
    fallback_keys_stripped_primary_verbatim [where seg = "'' k ''" and c = "'' k ''"
      and p = "'' k ''"]
  show ?thesis by (simp add: s)
qed

section \<open>Properties of authentication\<close>

text \<open>
  Claim C5. \<open>verify_api_key\<close> answers 401 "API key required. Please provide X-API-Key
  header." when the header is absent or empty, 401 "Invalid or expired API key." when it is
  present and \<open>validate_key\<close> rejects it, and returns the key when \<open>validate_key\<close>
  accepts it.
\<close>

theorem verify_api_key_cases:
  "((api_key = None \<or> api_key = Some []) \<longrightarrow>
      verify_api_key km api_key =
        Inl (HTTPException 401 ''API key required. Please provide X-API-Key header.'')) \<and>
   ((k \<noteq> [] \<and> \<not> validate_key km (Some k)) \<longrightarrow>
      verify_api_key km (Some k) = Inl (HTTPException 401 ''Invalid or expired API key.'')) \<and>
   (validate_key km (Some k) \<longrightarrow> verify_api_key km (Some k) = Inr k)"
  by (auto simp: verify_api_key_def validate_key_def)

theorem verify_api_key_cases_witness:
  "verify_api_key (key_manager_init (Some ''abc123'') (Some ''def456,ghi789'')) None =
     Inl (HTTPException 401 ''API key required. Please provide X-API-Key header.'') \<and>
   verify_api_key (key_manager_init (Some ''abc123'') (Some ''def456,ghi789'')) (Some ''xyz'') =
     Inl (HTTPException 401 ''Invalid or expired API key.'') \<and>
   verify_api_key (key_manager_init (Some ''abc123'') (Some ''def456,ghi789'')) (Some ''def456'') =
     Inr ''def456''"
proof -
  let ?km = "key_manager_init (Some ''abc123'') (Some ''def456,ghi789'')"
  have v: "valid_keys ?km = [''abc123'', ''def456'', ''ghi789'']" by code_simp
  show ?thesis
    using verify_api_key_cases [of None ?km "''xyz''"]
      verify_api_key_cases [of None ?km "''def456''"]
    by (simp add: validate_key_def v)
qed

section \<open>Properties of the image decoder\<close>

lemma remove_data_url_prefix_comma:
  assumes "CHR '','' \<in> set s"
  shows "remove_data_url_prefix s =
           Inr (takeWhile (\<lambda>c. c \<noteq> CHR '','') (tl (dropWhile (\<lambda>c. c \<noteq> CHR '','') s)))"
proof -
  let ?rest = "tl (dropWhile (\<lambda>c. c \<noteq> CHR '','') s)"
  have "py_split CHR '','' s = takeWhile (\<lambda>c. c \<noteq> CHR '','') s # py_split CHR '','' ?rest"
    using assms by (subst py_split_eq) simp
  moreover obtain segs where
    "py_split CHR '','' ?rest = takeWhile (\<lambda>c. c \<noteq> CHR '','') ?rest # segs"
    using py_split_eq [of "CHR '',''" ?rest] by blast
  ultimately show ?thesis
    using assms by (simp add: remove_data_url_prefix_def)
qed

text \<open>
  Claim C3 says that everything after the first comma, later commas included, goes to the
  base64 decoder. The code keeps the segment between the first and the second comma only:
  on \<open>data:image/png;base64,AAAA,BBBB\<close> it hands \<open>AAAA\<close> on, and the whole of
  \<open>decode_base64_image\<close> answers as it does on \<open>AAAA\<close>, whatever the libraries do.
\<close>

theorem remove_data_url_prefix_keeps_one_segment:
  "remove_data_url_prefix ''data:image/png;base64,AAAA,BBBB'' = Inr ''AAAA'' \<and>
   fst (decode_base64_image ext (JStr ''data:image/png;base64,AAAA,BBBB'') w) =
     fst (decode_base64_image ext (JStr ''AAAA'') w)"
proof -
  have 1: "remove_data_url_prefix ''data:image/png;base64,AAAA,BBBB'' = Inr ''AAAA''"
    by (simp add: remove_data_url_prefix_def py_split_def)
  have 2: "remove_data_url_prefix ''AAAA'' = Inr ''AAAA''"
    by (simp add: remove_data_url_prefix_def)
  show ?thesis
    by (simp add: 1 2 decode_base64_image_def decode_image_def Let_def
        split: sum.splits)
qed

text \<open>
  What does hold: with a prefix and a payload free of commas, the prefixed string and the
  bare payload decode to the frame \<open>decode_image\<close> gives on the raw bytes.
\<close>

lemma data_url_round_trip:
  assumes "CHR '','' \<notin> set prefix" and "CHR '','' \<notin> set enc"
      and "b64decode ext enc = Inr image_data" and "pil_open_rgb ext image_data = Inr rgb"
  shows "fst (decode_base64_image ext (JStr (prefix @ '','' @ enc)) w) =
           fst (decode_image ext image_data w') \<and>
         fst (decode_base64_image ext (JStr enc) w) = fst (decode_image ext image_data w')"
proof -
  have d: "dropWhile (\<lambda>c. c \<noteq> CHR '','') (prefix @ CHR '','' # enc) = CHR '','' # enc"
    using assms(1) by (induction prefix) auto
  have t: "takeWhile (\<lambda>c. c \<noteq> CHR '','') enc = enc"
    using assms(2) by (auto simp: takeWhile_eq_all_conv)
  have "remove_data_url_prefix (prefix @ CHR '','' # enc) = Inr enc"
    by (subst remove_data_url_prefix_comma) (simp_all add: d t)
  moreover have "remove_data_url_prefix enc = Inr enc"
    using assms(2) by (simp add: remove_data_url_prefix_def)
  ultimately show ?thesis
    using assms(3,4) by (simp add: decode_base64_image_def decode_image_def Let_def)
qed

text \<open>
  Claim C1 says that a payload the decoder rejects is answered with status 400 on both
  routes. \<open>decode_image\<close> raises the 400, and \<open>analyze_frame\<close> turns it into a 500: its
  \<open>except Exception\<close> catches the \<open>HTTPException\<close> too.
\<close>

theorem analyze_frame_decode_error_is_500:
  assumes "pil_open_rgb ext image_data = Inl msg"
  shows "fst (decode_image ext image_data w) =
           Inl (HTTPException 400 (''Invalid image format: '' @ msg)) \<and>
         fst (analyze_frame ext image_data w) =
           Inl (HTTPException 500
                  (''Error processing frame: '' @
                   str_http ext (HTTPException 400 (''Invalid image format: '' @ msg))))"
  using assms by (simp add: analyze_frame_def decode_image_def Let_def)

theorem analyze_frame_decode_error_is_500_witness:
  "fst (analyze_frame (stub_externals scenario_result) [] \<lparr>analyzer = 0, trace = []\<rparr>) =
     Inl (HTTPException 500
       ''Error processing frame: 400: Invalid image format: cannot identify image file'')"
proof -
  have "pil_open_rgb (stub_externals scenario_result) [] = Inl ''cannot identify image file''"
    by (simp add: stub_externals_def)
  from analyze_frame_decode_error_is_500 [OF this] show ?thesis
    by (simp add: stub_externals_def)
qed

text \<open>The base64 route lets the 400 through, inside the message of its own 400.\<close>

lemma analyze_base64_frame_decode_error_is_400:
  assumes "request ''image'' = Some (JStr s)" and "s \<noteq> []"
      and "remove_data_url_prefix s = Inr s'" and "b64decode ext s' = Inr image_data"
      and "pil_open_rgb ext image_data = Inl msg"
  shows "fst (analyze_base64_frame ext request w) =
           Inl (HTTPException 400
                  (''Invalid base64 image: '' @
                   str_http ext (HTTPException 400 (''Invalid image format: '' @ msg))))"
  using assms
  by (simp add: analyze_base64_frame_def decode_base64_image_def decode_image_def Let_def)

section \<open>Properties of the two routes\<close>

subsection \<open>The trace\<close>

lemma analyzer_log_event: "analyzer (log_event ev w) = analyzer w"
  by (simp add: log_event_def)

lemma trace_log_event: "trace (log_event ev w) = trace w @ [ev]"
  by (simp add: log_event_def)

lemma decode_image_world:
  "snd (decode_image ext image_data w) = log_event (Enter_decode_image image_data) w"
  by (simp add: decode_image_def Let_def split: sum.splits)

lemma decode_base64_image_trace:
  "Enter_decode_base64_image v \<in> set (trace (snd (decode_base64_image ext v w))) \<and>
   analyzer (snd (decode_base64_image ext v w)) = analyzer w"
  by (cases v)
    (auto simp: decode_base64_image_def Let_def decode_image_def log_event_def
      split: sum.splits prod.splits)

lemma process_and_respond_trace:
  "trace (snd (process_and_respond ext frm w)) = trace w @ [Call_process_frame frm]"
  by (simp add: process_and_respond_def Let_def log_event_def split: sum.splits prod.splits)

subsection \<open>A handler that reaches the analyzer\<close>

lemma analyze_frame_success:
  assumes "decode_image ext image_data w = (Inr frm, w1)"
      and "process_frame ext (analyzer w1) frm = (Inr result, a)"
  shows "fst (analyze_frame ext image_data w) = Inr (build_response (time_now ext) result)"
  using assms
  by (simp add: analyze_frame_def process_and_respond_def Let_def analyzer_log_event)

lemma analyze_base64_frame_success:
  assumes "request ''image'' = Some v" and "truthy v"
      and "decode_base64_image ext v w = (Inr frm, w1)"
      and "process_frame ext (analyzer w1) frm = (Inr result, a)"
  shows "fst (analyze_base64_frame ext request w) = Inr (build_response (time_now ext) result)"
  using assms
  by (simp add: analyze_base64_frame_def process_and_respond_def Let_def analyzer_log_event)

lemma confidence_status_build_response:
  "confidence_status (build_response now result) =
     (if float_0_3 \<le> (case res_frame_confidence result of None \<Rightarrow> 0 | Some c \<Rightarrow> c)
      then ''PASS'' else ''FAIL'')"
  by (simp add: build_response_def Let_def)

lemma frame_confidence_build_response:
  "frame_confidence (build_response now result) =
     py_round (case res_frame_confidence result of None \<Rightarrow> 0 | Some c \<Rightarrow> c) 3"
  by (simp add: build_response_def Let_def)

subsection \<open>The stand-in, evaluated\<close>

lemma stub_decode_image:
  "decode_image (stub_externals r) [0x89, 0x50] w =
     (Inr [[(0, 0, 255)]], log_event (Enter_decode_image [0x89, 0x50]) w)"
  by (simp add: decode_image_def stub_externals_def cvtColor_RGB2BGR_def)

lemma stub_decode_base64_image:
  "decode_base64_image (stub_externals r) (JStr ''data:image/png;base64,iVA='') w =
     (Inr [[(0, 0, 255)]],
      log_event (Enter_decode_image [0x89, 0x50])
        (log_event (Enter_decode_base64_image (JStr ''data:image/png;base64,iVA='')) w))"
proof -
  have "remove_data_url_prefix ''data:image/png;base64,iVA='' = Inr ''iVA=''"
    by (simp add: remove_data_url_prefix_def py_split_def)
  then show ?thesis
    by (simp add: decode_base64_image_def Let_def decode_image_def stub_externals_def
        cvtColor_RGB2BGR_def)
qed

lemma stub_process_frame: "process_frame (stub_externals r) n frm = (Inr r, Suc n)"
  by (simp add: stub_externals_def)

subsection \<open>Failing early\<close>

text \<open>
  Claim C7. An authenticated request to the base64 route whose body has no \<open>image\<close> field
  is answered with status 400 and "Missing 'image' field in request"; the world is the one
  the request started in, so neither decoding function was entered and the analyzer was
  not called.
\<close>

theorem missing_image_field:
  assumes "request ''image'' = None" and "validate_key km (Some k)"
  shows "post_analyze_base64 km ext (Some k) request w =
           (Inl (HTTPException 400 ''Missing 'image' field in request''), w) \<and>
         analyze_base64_frame ext request w =
           (Inl (HTTPException 400 ''Missing 'image' field in request''), w)"
proof -
  have "k \<noteq> []" using assms(2) by (auto simp: validate_key_def)
  then have "verify_api_key km (Some k) = Inr k"
    using assms(2) by (simp add: verify_api_key_def)
  moreover have "analyze_base64_frame ext request w =
      (Inl (HTTPException 400 ''Missing 'image' field in request''), w)"
    using assms(1) by (simp add: analyze_base64_frame_def)
  ultimately show ?thesis by (simp add: post_analyze_base64_def)
qed

theorem missing_image_field_witness:
  "post_analyze_base64 (key_manager_init (Some ''abc123'') None)
     (stub_externals scenario_result) (Some ''abc123'') Map.empty
     \<lparr>analyzer = 0, trace = []\<rparr> =
   (Inl (HTTPException 400 ''Missing 'image' field in request''),
    \<lparr>analyzer = 0, trace = []\<rparr>)"
proof -
  have v: "validate_key (key_manager_init (Some ''abc123'') None) (Some ''abc123'')"
    by (simp add: validate_key_def valid_keys_init fallback_keys_init py_split_def py_strip_def)
  have r: "(Map.empty :: string \<rightharpoonup> json) ''image'' = None" by simp
  from missing_image_field
      [where ext = "stub_externals scenario_result" and w = "\<lparr>analyzer = 0, trace = []\<rparr>", OF r v]
  show ?thesis by simp
qed

text \<open>
  Claim C8. When the \<open>X-API-Key\<close> header is absent, empty or not among the valid keys,
  both routes answer 401 and leave the world as it was: no decoding function was entered
  and the analyzer was not called.
\<close>

theorem authentication_fails_first:
  assumes "x_api_key = None \<or> x_api_key = Some [] \<or>
           (\<exists>k. x_api_key = Some k \<and> k \<notin> set (valid_keys km))"
  shows "(\<exists>d. post_analyze_frame km ext x_api_key image_data w =
                (Inl (HTTPException 401 d), w)) \<and>
         (\<exists>d. post_analyze_base64 km ext x_api_key request w =
                (Inl (HTTPException 401 d), w))"
proof -
  have "\<exists>d. verify_api_key km x_api_key = Inl (HTTPException 401 d)"
    using assms by (auto simp: verify_api_key_def validate_key_def)
  then show ?thesis
    by (auto simp: post_analyze_frame_def post_analyze_base64_def)
qed

theorem authentication_fails_first_witness:
  "post_analyze_frame (key_manager_init (Some ''abc123'') (Some ''def456,ghi789''))
     (stub_externals scenario_result) (Some ''xyz'') [0x89, 0x50]
     \<lparr>analyzer = 0, trace = []\<rparr> =
   (Inl (HTTPException 401 ''Invalid or expired API key.''), \<lparr>analyzer = 0, trace = []\<rparr>) \<and>
   post_analyze_base64 (key_manager_init (Some ''abc123'') (Some ''def456,ghi789''))
     (stub_externals scenario_result) None [''image'' \<mapsto> JStr ''iVA='']
     \<lparr>analyzer = 0, trace = []\<rparr> =
   (Inl (HTTPException 401 ''API key required. Please provide X-API-Key header.''),
    \<lparr>analyzer = 0, trace = []\<rparr>)"
proof -
  let ?km = "key_manager_init (Some ''abc123'') (Some ''def456,ghi789'')"
  have v: "valid_keys ?km = [''abc123'', ''def456'', ''ghi789'']" by code_simp
  have 1: "Some ''xyz'' = None \<or> Some ''xyz'' = Some [] \<or>
           (\<exists>k. Some ''xyz'' = Some k \<and> k \<notin> set (valid_keys ?km))"
    by (simp add: v)
  have 2: "(None :: string option) = None \<or> None = Some [] \<or>
           (\<exists>k. None = Some k \<and> k \<notin> set (valid_keys ?km))"
    by simp
  from authentication_fails_first [OF 1, of "stub_externals scenario_result" "[0x89, 0x50]"
      "\<lparr>analyzer = 0, trace = []\<rparr>"]
    authentication_fails_first [OF 2, of "stub_externals scenario_result" _
      "\<lparr>analyzer = 0, trace = []\<rparr>" "[''image'' \<mapsto> JStr ''iVA='']"]
  show ?thesis
    by (auto simp: post_analyze_frame_def post_analyze_base64_def verify_api_key_def
        validate_key_def v)
qed

section \<open>Properties of the response\<close>

subsection \<open>Rounding and the threshold\<close>

lemma round_half_even_close: "\<bar>of_int (round_half_even x) - x\<bar> \<le> 1 / 2"
proof -
  have "of_int \<lfloor>x\<rfloor> \<le> x" "x < of_int \<lfloor>x\<rfloor> + 1" by linarith+
  then show ?thesis
    by (auto simp: round_half_even_def Let_def)
qed

lemma py_round_close: "\<bar>py_round x n - x\<bar> \<le> 1 / (2 * 10 ^ n)"
proof -
  have "\<bar>py_round x n - x\<bar> = \<bar>of_int (round_half_even (x * 10 ^ n)) - x * 10 ^ n\<bar> / 10 ^ n"
    by (simp add: py_round_def field_simps abs_divide)
  also have "\<dots> \<le> (1 / 2) / 10 ^ n"
    by (intro divide_right_mono round_half_even_close) simp
  finally show ?thesis by simp
qed

lemma py_round_decimal: "\<exists>k::int. py_round x n = of_int k / 10 ^ n"
  by (auto simp: py_round_def)

lemma py_round_zero: "py_round 0 n = 0"
  by (simp add: py_round_def round_half_even_def)

lemma float_0_3_positive: "\<not> float_0_3 \<le> 0"
  by (simp add: float_0_3_def)

lemma float_0_3_nearest:
  "float_0_3 < 3 / 10 \<and> 3 / 10 - float_0_3 < 1 / 2 ^ 55 \<and>
   (2::int) ^ 52 \<le> 5404319552844595 \<and> (5404319552844595::int) < 2 ^ 53"
  by (simp add: float_0_3_def)

text \<open>
  The doubles from one quarter up are integer multiples of \<open>2 ^ -54\<close>. Among such values,
  being at least \<open>float_0_3\<close> is being at least three tenths or being \<open>float_0_3\<close> itself,
  the double the literal \<open>0.3\<close> denotes.
\<close>

lemma float_0_3_grid:
  fixes m :: int
  shows "(float_0_3 \<le> of_int m / 2 ^ 54) =
         (3 / 10 \<le> (of_int m / 2 ^ 54 :: rat) \<or> of_int m / 2 ^ 54 = float_0_3)"
proof -
  have a: "(float_0_3 \<le> of_int m / 2 ^ 54) = (5404319552844595 \<le> m)"
    by (simp add: float_0_3_def divide_le_cancel)
  have b: "(of_int m / 2 ^ 54 = float_0_3) = (m = 5404319552844595)"
    by (simp add: float_0_3_def)
  have "(3 / 10 \<le> (of_int m / 2 ^ 54 :: rat)) = ((3 * 2 ^ 54 :: rat) \<le> of_int (10 * m))"
    by (simp add: field_simps)
  also have "\<dots> = (of_int (3 * 2 ^ 54) \<le> (of_int (10 * m) :: rat))"
    by simp
  also have "\<dots> = (3 * 2 ^ 54 \<le> 10 * m)"
    by (simp only: of_int_le_iff)
  also have "\<dots> = (5404319552844596 \<le> m)"
    by simp presburger
  finally have c: "(3 / 10 \<le> (of_int m / 2 ^ 54 :: rat)) = (5404319552844596 \<le> m)" .
  show ?thesis
    unfolding a b c by linarith
qed

text \<open>
  The status is decided on the analyzer's value and the response carries the rounded one,
  so a response can show 0.3 next to FAIL.
\<close>

lemma rounded_confidence_at_threshold:
  assumes "res_frame_confidence result = Some (2996 / 10000)"
  shows "frame_confidence (build_response now result) = 3 / 10 \<and>
         confidence_status (build_response now result) = ''FAIL''"
proof -
  have "py_round (749 / 2500) 3 = 3 / 10" by code_simp
  moreover have "\<not> float_0_3 \<le> 749 / 2500" by (simp add: float_0_3_def)
  ultimately show ?thesis
    using assms
    by (simp add: frame_confidence_build_response confidence_status_build_response)
qed

subsection \<open>The fields of the response\<close>

text \<open>
  Claim C2. The status of the response is PASS exactly when the confidence the analyzer
  reported is at least 0.3 (the double of that literal, \<open>float_0_3\<close>) and FAIL exactly when
  it is below, so 0.3 itself passes; this holds of the response builder and of the response
  of either route.
\<close>

theorem confidence_status_threshold:
  assumes "res_frame_confidence result = Some c"
  shows
    "(confidence_status (build_response now result) = ''PASS'') = (float_0_3 \<le> c) \<and>
     (confidence_status (build_response now result) = ''FAIL'') = (c < float_0_3) \<and>
     (decode_image ext image_data w = (Inr frm, wd) \<and>
      process_frame ext (analyzer wd) frm = (Inr result, a) \<longrightarrow>
        (\<exists>response. fst (analyze_frame ext image_data w) = Inr response \<and>
           (confidence_status response = ''PASS'') = (float_0_3 \<le> c) \<and>
           (confidence_status response = ''FAIL'') = (c < float_0_3))) \<and>
     (request ''image'' = Some v \<and> truthy v \<and>
      decode_base64_image ext v w' = (Inr frm', wd') \<and>
      process_frame ext (analyzer wd') frm' = (Inr result, a') \<longrightarrow>
        (\<exists>response. fst (analyze_base64_frame ext request w') = Inr response \<and>
           (confidence_status response = ''PASS'') = (float_0_3 \<le> c) \<and>
           (confidence_status response = ''FAIL'') = (c < float_0_3)))"
proof -
  have b: "(confidence_status (build_response t result) = ''PASS'') = (float_0_3 \<le> c) \<and>
           (confidence_status (build_response t result) = ''FAIL'') = (c < float_0_3)" for t
    using assms by (auto simp: confidence_status_build_response)
  show ?thesis
    using b [of now] b [of "time_now ext"]
    by (auto simp: analyze_frame_success analyze_base64_frame_success)
qed

theorem confidence_status_threshold_witness:
  "(\<exists>response.
      fst (analyze_frame (stub_externals (scenario_result\<lparr>res_frame_confidence := Some float_0_3\<rparr>))
             [0x89, 0x50] \<lparr>analyzer = 0, trace = []\<rparr>) = Inr response \<and>
      confidence_status response = ''PASS'') \<and>
   (\<exists>response.
      fst (analyze_base64_frame
             (stub_externals (scenario_result\<lparr>res_frame_confidence := Some float_0_3\<rparr>))
             [''image'' \<mapsto> JStr ''data:image/png;base64,iVA=''] \<lparr>analyzer = 0, trace = []\<rparr>) =
        Inr response \<and>
      confidence_status response = ''PASS'')"
proof -
  let ?r = "scenario_result\<lparr>res_frame_confidence := Some float_0_3\<rparr>"
  let ?w = "\<lparr>analyzer = 0::nat, trace = []\<rparr>"
  have c: "res_frame_confidence ?r = Some float_0_3" by simp
  from confidence_status_threshold [OF c,
      where now = 0 and ext = "stub_externals ?r" and image_data = "[0x89, 0x50]" and w = ?w
        and frm = "[[(0, 0, 255)]]" and wd = "log_event (Enter_decode_image [0x89, 0x50]) ?w"
        and a = "Suc 0"
        and request = "[''image'' \<mapsto> JStr ''data:image/png;base64,iVA='']"
        and v = "JStr ''data:image/png;base64,iVA=''" and w' = ?w and frm' = "[[(0, 0, 255)]]"
        and wd' = "log_event (Enter_decode_image [0x89, 0x50])
                     (log_event (Enter_decode_base64_image (JStr ''data:image/png;base64,iVA='')) ?w)"
        and a' = "Suc 0"]
  show ?thesis
    by (auto simp: stub_decode_image stub_decode_base64_image stub_process_frame
        analyzer_log_event)
qed

text \<open>
  Claim C9. When the analyzer's result has no \<open>frame_confidence\<close>, the response carries
  the confidence 0 and the status FAIL, on either route; no error is raised.
\<close>

theorem absent_confidence_is_zero:
  assumes "res_frame_confidence result = None"
  shows
    "frame_confidence (build_response now result) = 0 \<and>
     confidence_status (build_response now result) = ''FAIL'' \<and>
     (decode_image ext image_data w = (Inr frm, wd) \<and>
      process_frame ext (analyzer wd) frm = (Inr result, a) \<longrightarrow>
        (\<exists>response. fst (analyze_frame ext image_data w) = Inr response \<and>
           frame_confidence response = 0 \<and> confidence_status response = ''FAIL'')) \<and>
     (request ''image'' = Some v \<and> truthy v \<and>
      decode_base64_image ext v w' = (Inr frm', wd') \<and>
      process_frame ext (analyzer wd') frm' = (Inr result, a') \<longrightarrow>
        (\<exists>response. fst (analyze_base64_frame ext request w') = Inr response \<and>
           frame_confidence response = 0 \<and> confidence_status response = ''FAIL''))"
proof -
  have b: "frame_confidence (build_response t result) = 0 \<and>
           confidence_status (build_response t result) = ''FAIL''" for t
    using assms float_0_3_positive
    by (simp add: confidence_status_build_response frame_confidence_build_response
        py_round_zero)
  show ?thesis
    using b [of now] b [of "time_now ext"]
    by (auto simp: analyze_frame_success analyze_base64_frame_success)
qed

theorem absent_confidence_is_zero_witness:
  "(\<exists>response.
      fst (analyze_frame (stub_externals (scenario_result\<lparr>res_frame_confidence := None\<rparr>))
             [0x89, 0x50] \<lparr>analyzer = 0, trace = []\<rparr>) = Inr response \<and>
      frame_confidence response = 0 \<and> confidence_status response = ''FAIL'') \<and>
   (\<exists>response.
      fst (analyze_base64_frame
             (stub_externals (scenario_result\<lparr>res_frame_confidence := None\<rparr>))
             [''image'' \<mapsto> JStr ''data:image/png;base64,iVA=''] \<lparr>analyzer = 0, trace = []\<rparr>) =
        Inr response \<and>
      frame_confidence response = 0 \<and> confidence_status response = ''FAIL'')"
proof -
  let ?r = "scenario_result\<lparr>res_frame_confidence := None\<rparr>"
  let ?w = "\<lparr>analyzer = 0::nat, trace = []\<rparr>"
  have c: "res_frame_confidence ?r = None" by simp
  from absent_confidence_is_zero [OF c,
      where now = 0 and ext = "stub_externals ?r" and image_data = "[0x89, 0x50]" and w = ?w
        and frm = "[[(0, 0, 255)]]" and wd = "log_event (Enter_decode_image [0x89, 0x50]) ?w"
        and a = "Suc 0"
        and request = "[''image'' \<mapsto> JStr ''data:image/png;base64,iVA='']"
        and v = "JStr ''data:image/png;base64,iVA=''" and w' = ?w and frm' = "[[(0, 0, 255)]]"
        and wd' = "log_event (Enter_decode_image [0x89, 0x50])
                     (log_event (Enter_decode_base64_image (JStr ''data:image/png;base64,iVA='')) ?w)"
        and a' = "Suc 0"]
  show ?thesis
    by (auto simp: stub_decode_image stub_decode_base64_image stub_process_frame
        analyzer_log_event)
qed

text \<open>
  Claim C6. The response builder maps a metric that is absent from the analyzer's metrics
  (or whose value is \<open>None\<close>) to \<open>None\<close>, and a metric that is present to its value rounded to
  1 decimal (attention, shoulder tilt) or 4 (head movement, hand activity); the confidence
  is rounded to 3. The rounded value is a decimal of that many places within half a unit
  of the last place. Whenever the image decodes and the analyzer returns a result, either
  route answers with the response built from it, never with an error.
\<close>

theorem missing_metrics_are_null:
  "(let metrics = (case res_metrics result of None \<Rightarrow> Map.empty | Some m \<Rightarrow> m);
        response = build_response now result
    in attention response =
         (case metrics ''attention_percent'' of
            None \<Rightarrow> None | Some None \<Rightarrow> None | Some (Some x) \<Rightarrow> Some (py_round x 1)) \<and>
       head_movement response =
         (case metrics ''head_movement_normalized'' of
            None \<Rightarrow> None | Some None \<Rightarrow> None | Some (Some x) \<Rightarrow> Some (py_round x 4)) \<and>
       shoulder_tilt response =
         (case metrics ''shoulder_tilt_deg'' of
            None \<Rightarrow> None | Some None \<Rightarrow> None | Some (Some x) \<Rightarrow> Some (py_round x 1)) \<and>
       hand_activity response =
         (case metrics ''hand_activity_normalized'' of
            None \<Rightarrow> None | Some None \<Rightarrow> None | Some (Some x) \<Rightarrow> Some (py_round x 4)) \<and>
       frame_confidence response =
         py_round (case res_frame_confidence result of None \<Rightarrow> 0 | Some c \<Rightarrow> c) 3 \<and>
       success response) \<and>
   \<bar>py_round x n - x\<bar> \<le> 1 / (2 * 10 ^ n) \<and>
   (\<exists>k::int. py_round x n = of_int k / 10 ^ n) \<and>
   (decode_image ext image_data w = (Inr frm, wd) \<and>
    process_frame ext (analyzer wd) frm = (Inr result, a) \<longrightarrow>
      fst (analyze_frame ext image_data w) = Inr (build_response (time_now ext) result)) \<and>
   (request ''image'' = Some v \<and> truthy v \<and>
    decode_base64_image ext v w' = (Inr frm', wd') \<and>
    process_frame ext (analyzer wd') frm' = (Inr result, a') \<longrightarrow>
      fst (analyze_base64_frame ext request w') = Inr (build_response (time_now ext) result))"
proof -
  have "attention (build_response now result) =
          (case (case res_metrics result of None \<Rightarrow> Map.empty | Some m \<Rightarrow> m) ''attention_percent'' of
             None \<Rightarrow> None | Some None \<Rightarrow> None | Some (Some x) \<Rightarrow> Some (py_round x 1))"
    by (simp add: build_response_def Let_def metrics_get_def split: option.splits)
  moreover have "head_movement (build_response now result) =
          (case (case res_metrics result of None \<Rightarrow> Map.empty | Some m \<Rightarrow> m)
                  ''head_movement_normalized'' of
             None \<Rightarrow> None | Some None \<Rightarrow> None | Some (Some x) \<Rightarrow> Some (py_round x 4))"
    by (simp add: build_response_def Let_def metrics_get_def split: option.splits)
  moreover have "shoulder_tilt (build_response now result) =
          (case (case res_metrics result of None \<Rightarrow> Map.empty | Some m \<Rightarrow> m) ''shoulder_tilt_deg'' of
             None \<Rightarrow> None | Some None \<Rightarrow> None | Some (Some x) \<Rightarrow> Some (py_round x 1))"
    by (simp add: build_response_def Let_def metrics_get_def split: option.splits)
  moreover have "hand_activity (build_response now result) =
          (case (case res_metrics result of None \<Rightarrow> Map.empty | Some m \<Rightarrow> m)
                  ''hand_activity_normalized'' of
             None \<Rightarrow> None | Some None \<Rightarrow> None | Some (Some x) \<Rightarrow> Some (py_round x 4))"
    by (simp add: build_response_def Let_def metrics_get_def split: option.splits)
  moreover have "success (build_response now result)"
    by (simp add: build_response_def Let_def)
  ultimately show ?thesis
    using py_round_close [of x n] py_round_decimal [of x n]
    by (simp add: Let_def frame_confidence_build_response analyze_frame_success
        analyze_base64_frame_success)
qed

theorem missing_metrics_are_null_witness:
  "attention (build_response 0 metrics_result) = Some (175 / 2) \<and>
   head_movement (build_response 0 metrics_result) = None \<and>
   shoulder_tilt (build_response 0 metrics_result) = None \<and>
   hand_activity (build_response 0 metrics_result) = Some 0 \<and>
   frame_confidence (build_response 0 metrics_result) = 1 / 4 \<and>
   fst (analyze_frame (stub_externals metrics_result) [0x89, 0x50]
          \<lparr>analyzer = 0, trace = []\<rparr>) = Inr (build_response 1000 metrics_result) \<and>
   fst (analyze_base64_frame (stub_externals metrics_result)
          [''image'' \<mapsto> JStr ''data:image/png;base64,iVA=''] \<lparr>analyzer = 0, trace = []\<rparr>) =
     Inr (build_response 1000 metrics_result)"
proof -
  let ?r = "metrics_result"
  let ?w = "\<lparr>analyzer = 0::nat, trace = []\<rparr>"
  have r1: "py_round (4373 / 50) (Suc 0) = 175 / 2" by code_simp
  have r2: "py_round 0 4 = 0" by (simp add: py_round_zero)
  have r3: "py_round (1 / 4) 3 = 1 / 4" by code_simp
  have t: "time_now (stub_externals ?r) = 1000" by (simp add: stub_externals_def)
  have m: "res_metrics ?r =
      Some [''attention_percent'' \<mapsto> Some (4373 / 50), ''shoulder_tilt_deg'' \<mapsto> None,
            ''hand_activity_normalized'' \<mapsto> Some 0]"
    and c: "res_frame_confidence ?r = Some (1 / 4)"
    by (simp_all add: metrics_result_def scenario_result_def)
  from missing_metrics_are_null [
      where result = ?r and now = 0 and x = 0 and n = 0
        and ext = "stub_externals ?r" and image_data = "[0x89, 0x50]" and w = ?w
        and frm = "[[(0, 0, 255)]]" and wd = "log_event (Enter_decode_image [0x89, 0x50]) ?w"
        and a = "Suc 0"
        and request = "[''image'' \<mapsto> JStr ''data:image/png;base64,iVA='']"
        and v = "JStr ''data:image/png;base64,iVA=''" and w' = ?w and frm' = "[[(0, 0, 255)]]"
        and wd' = "log_event (Enter_decode_image [0x89, 0x50])
                     (log_event (Enter_decode_base64_image (JStr ''data:image/png;base64,iVA='')) ?w)"
        and a' = "Suc 0"]
  show ?thesis
    by (simp add: Let_def m c r1 r2 r3 t stub_decode_image stub_decode_base64_image
        stub_process_frame analyzer_log_event)
qed

end
